theory Spec2Isabelle
  imports Complex_Main
begin

section \<open>Ramsey interferometry: post-processing of the measurement counts\<close>

text \<open>
  The notebook \<^verbatim>\<open>RamseyInterferometry.ipynb\<close> builds a one-qubit circuit, runs it on a
  simulator and post-processes the returned counts:
  \<^verbatim>\<open>
  counts = result.get_counts()
  probability0 = 0 if '0' not in counts else counts['0']/shots
  probability1 = 0 if '1' not in counts else counts['1']/shots
  phase = math.acos((probability1*2-1)*-1)
  phaseError = abs(phase - phaseAmount)
  \<close>
  The counts are a Python dict from outcome strings to integers, \<^verbatim>\<open>shots\<close> is an integer.
  Every exception that the expressions can raise is a value of the model. The values
  of Python's floats are idealised as reals: \<^verbatim>\<open>/\<close> gives the exact quotient and
  \<^verbatim>\<open>math.acos\<close> the principal arc cosine, where a double holds the nearest
  representable number. The rounding is not modelled. Near \<open>1\<close> and \<open>-1\<close> it moves the
  argument of \<^verbatim>\<open>math.acos\<close> by less than \<open>2 / 2\<^sup>5\<^sup>2\<close>, so it can decide whether
  \<^verbatim>\<open>math.acos\<close> accepts the argument only when the exact argument is closer than that
  to \<open>1\<close> or \<open>-1\<close> without being equal to it.
\<close>

subsection \<open>Python primitives\<close>

datatype error = KeyError | ZeroDivisionError | OverflowError | ValueError

type_synonym counts = "string \<rightharpoonup> int"

text \<open>\<^verbatim>\<open>counts[key]\<close>: a missing key raises \<^verbatim>\<open>KeyError\<close>.\<close>

definition getitem :: "counts \<Rightarrow> string \<Rightarrow> error + int" where
  "getitem counts key = (case counts key of None \<Rightarrow> Inl KeyError | Some c \<Rightarrow> Inr c)"

text \<open>
  \<^verbatim>\<open>a / b\<close> on two integers: true division. It raises \<^verbatim>\<open>ZeroDivisionError\<close> when
  \<^verbatim>\<open>b == 0\<close>, and \<^verbatim>\<open>OverflowError\<close> (integer division result too large for a float)
  when the quotient rounds to a magnitude of \<open>2\<^sup>1\<^sup>0\<^sup>2\<^sup>4\<close>, which is from \<open>DBL_MAX\<close> plus
  half a unit in its last place on.
\<close>

definition DBL_OVERFLOW :: real where
  "DBL_OVERFLOW = 2 ^ 1024 - 2 ^ 970"

definition truediv :: "int \<Rightarrow> int \<Rightarrow> error + real" where
  "truediv a b =
     (if b = 0 then Inl ZeroDivisionError
      else if DBL_OVERFLOW \<le> \<bar>real_of_int a / real_of_int b\<bar> then Inl OverflowError
      else Inr (real_of_int a / real_of_int b))"

text \<open>\<^verbatim>\<open>math.acos(x)\<close>: \<^verbatim>\<open>ValueError\<close> (math domain error) outside \<open>[-1, 1]\<close>.\<close>

definition math_acos :: "real \<Rightarrow> error + real" where
  "math_acos x = (if - 1 \<le> x \<and> x \<le> 1 then Inr (arccos x) else Inl ValueError)"

subsection \<open>The notebook's expressions\<close>

text \<open>
  \<^verbatim>\<open>0 if key not in counts else counts[key]/shots\<close>, the right-hand side of
  \<^verbatim>\<open>probability0\<close> (key \<^verbatim>\<open>'0'\<close>) and of \<^verbatim>\<open>probability1\<close> (key \<^verbatim>\<open>'1'\<close>).
\<close>

definition probability :: "string \<Rightarrow> counts \<Rightarrow> int \<Rightarrow> error + real" where
  "probability key counts shots =
     (if key \<notin> dom counts then Inr 0
      else case getitem counts key of
             Inl e \<Rightarrow> Inl e
           | Inr c \<Rightarrow> truediv c shots)"

text \<open>\<^verbatim>\<open>phase = math.acos((probability1*2-1)*-1)\<close>\<close>

definition phase :: "real \<Rightarrow> error + real" where
  "phase probability1 = math_acos ((probability1 * 2 - 1) * - 1)"

text \<open>\<^verbatim>\<open>phaseError = abs(phase - phaseAmount)\<close>; the specification calls it \<^verbatim>\<open>estimationError\<close>.\<close>

definition phaseError :: "real \<Rightarrow> real \<Rightarrow> real" where
  "phaseError phase' phaseAmount = \<bar>phase' - phaseAmount\<bar>"

text \<open>
  The phase read off a counts dict: \<^verbatim>\<open>probability1\<close> followed by \<^verbatim>\<open>phase\<close>, an
  exception of the first ending the computation.
\<close>

definition ramseyPhase :: "counts \<Rightarrow> int \<Rightarrow> error + real" where
  "ramseyPhase counts shots =
     (case probability ''1'' counts shots of
        Inl e \<Rightarrow> Inl e
      | Inr probability1 \<Rightarrow> phase probability1)"

text \<open>
  The specification's \<^verbatim>\<open>estimatePhase(countOne, shots)\<close> is the same pair of statements
  with the tally of ones given directly, that is with \<^verbatim>\<open>counts['1'] = countOne\<close>:
  \<^verbatim>\<open>probability1 = countOne/shots\<close>, then \<^verbatim>\<open>phase = math.acos((probability1*2-1)*-1)\<close>.
\<close>

definition estimatePhase :: "int \<Rightarrow> int \<Rightarrow> error + real" where
  "estimatePhase countOne shots =
     (case truediv countOne shots of
        Inl e \<Rightarrow> Inl e
      | Inr probability1 \<Rightarrow> phase probability1)"

subsection \<open>The forward model\<close>

text \<open>
  The notebook's text derives the state after the second Hadamard gate,
  \<open>(1 + e\<^sup>i\<^sup>\<theta>)/2 |0> + (1 - e\<^sup>i\<^sup>\<theta>)/2 |1>\<close>; the amplitude of \<open>|1>\<close> is its second
  coefficient.
\<close>

definition amplitudeOfOne :: "real \<Rightarrow> complex" where
  "amplitudeOfOne theta = (1 - exp (\<i> * complex_of_real theta)) / 2"

text \<open>
  Modelled from the spec: no statement of the notebook computes the probability of
  reading 1 from the phase; the function \<^verbatim>\<open>predictedProbabilityOfOne\<close> is missing from
  the code. The specification gives \<open>p(\<theta>) = sin\<^sup>2(\<theta>/2) = (1 - cos \<theta>)/2\<close>, which is
  also the formula of the notebook's text, \<open>P[|1>] = |sin(\<theta>/2)|\<^sup>2 = (1 - cos \<theta>)/2\<close>.
  The definition is the first form; the second is derived below.
\<close>

definition predictedProbabilityOfOne :: "real \<Rightarrow> real" where
  "predictedProbabilityOfOne theta = \<bar>sin (theta / 2)\<bar>\<^sup>2"

subsection \<open>The cells as steps on the notebook's variables\<close>






subsection \<open>The noiseless round trip\<close>

text \<open>
  Modelled from the spec: the notebook has no round-trip test, its tallies come from
  the simulator. The specification's test replaces sampling by the tally
  \<^verbatim>\<open>countOne = round(p * N)\<close> with \<^verbatim>\<open>p = predictedProbabilityOfOne(theta)\<close>.
  \<^verbatim>\<open>round\<close> is Python's built-in: to the nearest integer, a tie to the even one.
\<close>

definition py_round :: "real \<Rightarrow> int" where
  "py_round x =
     (if x - of_int \<lfloor>x\<rfloor> < 1 / 2 then \<lfloor>x\<rfloor>
      else if 1 / 2 < x - of_int \<lfloor>x\<rfloor> then \<lfloor>x\<rfloor> + 1
      else if even \<lfloor>x\<rfloor> then \<lfloor>x\<rfloor> else \<lfloor>x\<rfloor> + 1)"

definition roundTrip :: "real \<Rightarrow> int \<Rightarrow> error + real" where
  "roundTrip theta N = estimatePhase (py_round (predictedProbabilityOfOne theta * real_of_int N)) N"

section \<open>Basic facts\<close>

lemma predictedProbabilityOfOne_cos:
  "predictedProbabilityOfOne theta = (1 - cos theta) / 2"
proof -
  have "cos theta = 1 - 2 * (sin (theta / 2))\<^sup>2"
    using cos_double_sin [of "theta / 2"] by simp
  then show ?thesis
    by (simp add: predictedProbabilityOfOne_def)
qed

lemma estimatePhase_ramseyPhase:
  "counts ''1'' = Some countOne \<Longrightarrow> ramseyPhase counts shots = estimatePhase countOne shots"
  by (simp add: ramseyPhase_def estimatePhase_def probability_def getitem_def dom_def)

subsection \<open>The expressions in closed form\<close>

lemma phase_eq:
  "phase p = (if 0 \<le> p \<and> p \<le> 1 then Inr (arccos (1 - 2 * p)) else Inl ValueError)"
proof -
  have "(p * 2 - 1) * - 1 = 1 - 2 * p"
    by (simp add: algebra_simps)
  then show ?thesis
    unfolding phase_def math_acos_def by (auto simp add: mult.commute)
qed

lemma not_overflow: "\<bar>x\<bar> \<le> 2 \<Longrightarrow> \<not> DBL_OVERFLOW \<le> \<bar>x\<bar>"
proof -
  define u :: real where "u = 2 ^ 970"
  define v :: real where "v = 2 ^ 54"
  have "(2::real) ^ 2 \<le> 2 ^ 970"
    by (rule power_increasing) simp_all
  then have u: "4 \<le> u"
    by (simp add: u_def)
  have "(2::real) ^ 1 \<le> 2 ^ 54"
    by (rule power_increasing) simp_all
  then have v: "2 \<le> v"
    by (simp add: v_def)
  have "(2::real) ^ 1024 = 2 ^ (970 + 54)"
    by simp
  then have "(2::real) ^ 1024 = u * v"
    unfolding u_def v_def by (simp only: power_add)
  moreover from u v have "u * 2 \<le> u * v"
    by (intro mult_left_mono) simp_all
  ultimately have "2 < DBL_OVERFLOW"
    unfolding DBL_OVERFLOW_def u_def [symmetric] using u by linarith
  then show "\<bar>x\<bar> \<le> 2 \<Longrightarrow> \<not> DBL_OVERFLOW \<le> \<bar>x\<bar>"
    by linarith
qed

lemma estimatePhase_eq:
  "estimatePhase countOne shots =
     (if shots = 0 then Inl ZeroDivisionError
      else if DBL_OVERFLOW \<le> \<bar>real_of_int countOne / real_of_int shots\<bar>
           then Inl OverflowError
      else if 0 \<le> real_of_int countOne / real_of_int shots
              \<and> real_of_int countOne / real_of_int shots \<le> 1
           then Inr (arccos (1 - 2 * (real_of_int countOne / real_of_int shots)))
           else Inl ValueError)"
  by (simp add: estimatePhase_def truediv_def phase_eq)

lemma estimatePhase_small:
  assumes "shots \<noteq> 0" and "\<bar>real_of_int countOne / real_of_int shots\<bar> \<le> 2"
  shows "estimatePhase countOne shots =
     (if 0 \<le> real_of_int countOne / real_of_int shots
         \<and> real_of_int countOne / real_of_int shots \<le> 1
      then Inr (arccos (1 - 2 * (real_of_int countOne / real_of_int shots)))
      else Inl ValueError)"
  using assms(1) not_overflow [OF assms(2)] by (simp only: estimatePhase_eq if_False)

lemma truediv_small:
  assumes "b \<noteq> 0" and "\<bar>real_of_int a / real_of_int b\<bar> \<le> 2"
  shows "truediv a b = Inr (real_of_int a / real_of_int b)"
  using assms(1) not_overflow [OF assms(2)] by (simp only: truediv_def if_False)

lemma estimatePhase_in_range:
  assumes "1 \<le> shots" and "0 \<le> countOne" and "countOne \<le> shots"
  shows "estimatePhase countOne shots
           = Inr (arccos (1 - 2 * (real_of_int countOne / real_of_int shots)))"
    and "0 \<le> arccos (1 - 2 * (real_of_int countOne / real_of_int shots))"
    and "arccos (1 - 2 * (real_of_int countOne / real_of_int shots)) \<le> pi"
    and "cos (arccos (1 - 2 * (real_of_int countOne / real_of_int shots)))
           = 1 - 2 * (real_of_int countOne / real_of_int shots)"
proof -
  define p where "p = real_of_int countOne / real_of_int shots"
  from assms have p: "0 \<le> p" "p \<le> 1"
    by (simp_all add: p_def)
  then have arg: "- 1 \<le> 1 - 2 * p" "1 - 2 * p \<le> 1"
    by simp_all
  from p have "\<bar>p\<bar> \<le> 2"
    by simp
  then have "\<not> DBL_OVERFLOW \<le> \<bar>p\<bar>"
    by (rule not_overflow)
  with assms(1) p show "estimatePhase countOne shots
      = Inr (arccos (1 - 2 * (real_of_int countOne / real_of_int shots)))"
    by (simp add: estimatePhase_eq p_def)
  from arccos [OF arg]
  show "0 \<le> arccos (1 - 2 * (real_of_int countOne / real_of_int shots))"
    and "arccos (1 - 2 * (real_of_int countOne / real_of_int shots)) \<le> pi"
    and "cos (arccos (1 - 2 * (real_of_int countOne / real_of_int shots)))
           = 1 - 2 * (real_of_int countOne / real_of_int shots)"
    by (simp_all add: p_def)
qed

lemma estimatePhase_fails_iff:
  "isl (estimatePhase countOne shots) \<longleftrightarrow>
     shots = 0
     \<or> real_of_int countOne / real_of_int shots < 0
     \<or> 1 < real_of_int countOne / real_of_int shots"
proof -
  have "1 < real_of_int countOne / real_of_int shots"
    if "DBL_OVERFLOW \<le> \<bar>real_of_int countOne / real_of_int shots\<bar>"
      and "\<not> real_of_int countOne / real_of_int shots < 0"
  proof -
    from that(1) not_overflow [of "real_of_int countOne / real_of_int shots"]
    have "2 < \<bar>real_of_int countOne / real_of_int shots\<bar>"
      by linarith
    with that(2) show ?thesis
      by linarith
  qed
  then show ?thesis
    by (auto simp add: estimatePhase_eq)
qed

lemma estimatePhase_error_kind:
  assumes "shots \<noteq> 0" and "isl (estimatePhase countOne shots)"
  shows "estimatePhase countOne shots = Inl ValueError
         \<or> estimatePhase countOne shots = Inl OverflowError"
  using assms by (auto simp add: estimatePhase_eq split: if_splits)

lemma acos_argument_margin:
  assumes "1 \<le> shots" and "shots \<le> 2 ^ 52" and "countOne < 0 \<or> shots < countOne"
  shows "1 + 2 / 2 ^ 52 \<le> \<bar>(real_of_int countOne / real_of_int shots * 2 - 1) * - 1\<bar>"
proof -
  define n where "n = real_of_int shots"
  define c where "c = real_of_int countOne"
  define e :: real where "e = 1 / 2 ^ 52"
  define x where "x = c / n"
  have "real_of_int 1 \<le> real_of_int shots" "real_of_int shots \<le> real_of_int (2 ^ 52)"
    using assms(1,2) by (simp_all only: of_int_le_iff)
  then have n: "1 \<le> n" "n \<le> 2 ^ 52"
    by (simp_all add: n_def)
  then have inv: "e \<le> 1 / n"
    unfolding e_def by (intro divide_left_mono) simp_all
  have goal: "1 + 2 / 2 ^ 52 \<le> \<bar>(x * 2 - 1) * - 1\<bar>" if "x \<le> - e \<or> 1 + e \<le> x"
  proof -
    have "2 / 2 ^ 52 = 2 * e"
      by (simp add: e_def)
    moreover have "(x * 2 - 1) * - 1 = 1 - 2 * x"
      by (simp add: algebra_simps)
    moreover from that have "1 + 2 * e \<le> \<bar>1 - 2 * x\<bar>"
      by (elim disjE) linarith+
    ultimately show ?thesis
      by (simp only:)
  qed
  from assms(3) have "x \<le> - e \<or> 1 + e \<le> x"
  proof
    assume "countOne < 0"
    then have "countOne \<le> - 1"
      by simp
    then have "real_of_int countOne \<le> real_of_int (- 1)"
      by (simp only: of_int_le_iff)
    then have "c \<le> - 1"
      by (simp add: c_def)
    with n have "c / n \<le> - 1 / n"
      by (intro divide_right_mono) simp_all
    then have "x \<le> - (1 / n)"
      by (simp add: x_def)
    with inv show ?thesis
      by linarith
  next
    assume "shots < countOne"
    then have "shots + 1 \<le> countOne"
      by simp
    then have "real_of_int (shots + 1) \<le> real_of_int countOne"
      by (simp only: of_int_le_iff)
    then have "n + 1 \<le> c"
      by (simp add: c_def n_def)
    with n have "(n + 1) / n \<le> c / n"
      by (intro divide_right_mono) simp_all
    moreover have "(n + 1) / n = 1 + 1 / n"
      using n by (simp add: field_simps)
    ultimately have "1 + 1 / n \<le> x"
      by (simp add: x_def)
    with inv show ?thesis
      by linarith
  qed
  then show ?thesis
    unfolding x_def c_def n_def by (rule goal [unfolded x_def c_def n_def])
qed

lemma ratio_in_range_iff:
  assumes "1 \<le> shots"
  shows "real_of_int countOne / real_of_int shots < 0 \<longleftrightarrow> countOne < 0"
    and "1 < real_of_int countOne / real_of_int shots \<longleftrightarrow> shots < countOne"
proof -
  have pos: "0 < real_of_int shots"
    using assms by simp
  then show "real_of_int countOne / real_of_int shots < 0 \<longleftrightarrow> countOne < 0"
    by (simp add: divide_less_0_iff)
  from pos show "1 < real_of_int countOne / real_of_int shots \<longleftrightarrow> shots < countOne"
    by simp
qed



lemma amplitudeOfOne_norm:
  "(cmod (amplitudeOfOne theta))\<^sup>2 = predictedProbabilityOfOne theta"
proof -
  have "1 - exp (\<i> * complex_of_real theta) = Complex (1 - cos theta) (- sin theta)"
    by (simp add: exp_eq_polar complex_eq_iff cis.ctr)
  then have "(cmod (1 - exp (\<i> * complex_of_real theta)))\<^sup>2 = (1 - cos theta)\<^sup>2 + (sin theta)\<^sup>2"
    by (simp add: cmod_power2)
  also have "\<dots> = 2 * (1 - cos theta)"
    using sin_cos_squared_add [of theta] by (simp add: power2_eq_square algebra_simps)
  finally show ?thesis
    by (simp add: amplitudeOfOne_def norm_divide power_divide predictedProbabilityOfOne_cos)
qed

lemma py_round_near: "\<bar>real_of_int (py_round x) - x\<bar> \<le> 1 / 2"
proof -
  have "of_int \<lfloor>x\<rfloor> \<le> x" "x < of_int \<lfloor>x\<rfloor> + 1"
    by linarith+
  then show ?thesis
    unfolding py_round_def by (auto simp add: abs_le_iff)
qed



subsection \<open>Bounds on \<open>pi\<close> and on the sine\<close>

lemma cos_poly12:
  fixes x :: real
  shows "(\<Sum>m<12. cos_coeff m * x ^ m)
         = 1 - x^2 / 2 + x^4 / 24 - x^6 / 720 + x^8 / 40320 - x^10 / 3628800"
proof -
  have "{..<12::nat} = {0, 1, 2, 3, 4, 5, 6, 7, 8, 9, 10, 11}"
    by auto arith
  then show ?thesis
    by (simp add: cos_coeff_def fact_numeral)
qed

lemma cos_taylor12:
  fixes x :: real
  assumes "0 < x"
  shows "\<bar>cos x - (1 - x^2 / 2 + x^4 / 24 - x^6 / 720 + x^8 / 40320 - x^10 / 3628800)\<bar>
         \<le> x^12 / 479001600"
proof -
  from Maclaurin_cos_expansion2 [OF assms, of 12]
  obtain t where t: "cos x = (\<Sum>m<12. cos_coeff m * x ^ m) + (cos (t + 1/2 * real 12 * pi) / fact 12) * x ^ 12"
    by auto
  have f: "fact 12 = (479001600::real)"
    by (simp add: fact_numeral)
  have "\<bar>cos x - (\<Sum>m<12. cos_coeff m * x ^ m)\<bar> = \<bar>cos (t + 1/2 * real 12 * pi)\<bar> * x^12 / 479001600"
    unfolding t f by (simp add: abs_mult)
  also have "\<dots> \<le> 1 * x^12 / 479001600"
    by (intro divide_right_mono mult_right_mono) simp_all
  finally show ?thesis
    by (simp add: cos_poly12)
qed

lemma cos_157075_pos: "0 < cos (157075 / 100000 :: real)"
proof -
  define a :: real where "a = 157075 / 100000"
  define P where "P = 1 - a^2 / 2 + a^4 / 24 - a^6 / 720 + a^8 / 40320 - a^10 / 3628800"
  define E where "E = a^12 / 479001600"
  have "0 < a"
    by (simp add: a_def)
  then have "\<bar>cos a - P\<bar> \<le> E"
    unfolding P_def E_def by (rule cos_taylor12)
  moreover have "E < P"
    unfolding P_def E_def a_def by (simp add: power_divide)
  ultimately have "0 < cos a"
    by linarith
  then show ?thesis
    by (simp add: a_def)
qed

lemma cos_157085_neg: "cos (157085 / 100000 :: real) < 0"
proof -
  define a :: real where "a = 157085 / 100000"
  define P where "P = 1 - a^2 / 2 + a^4 / 24 - a^6 / 720 + a^8 / 40320 - a^10 / 3628800"
  define E where "E = a^12 / 479001600"
  have "0 < a"
    by (simp add: a_def)
  then have "\<bar>cos a - P\<bar> \<le> E"
    unfolding P_def E_def by (rule cos_taylor12)
  moreover have "P < - E"
    unfolding P_def E_def a_def by (simp add: power_divide)
  ultimately have "cos a < 0"
    by linarith
  then show ?thesis
    by (simp add: a_def)
qed

lemma pi_half_lower: "157075 / 100000 < pi / 2"
proof (rule ccontr)
  assume "\<not> 157075 / 100000 < pi / 2"
  then have le: "pi / 2 \<le> 157075 / 100000"
    by simp
  have "157075 / 100000 \<le> pi"
    using pi_ge_two by simp
  with le have "cos (157075 / 100000) \<le> cos (pi / 2)"
    by (intro cos_monotone_0_pi_le) simp_all
  with cos_157075_pos show False
    by simp
qed

lemma pi_half_upper: "pi / 2 < 157085 / 100000"
proof (rule ccontr)
  assume "\<not> pi / 2 < 157085 / 100000"
  then have "157085 / 100000 \<le> pi / 2"
    by simp
  then have "0 \<le> cos (157085 / 100000 :: real)"
    by (intro cos_ge_zero) simp_all
  with cos_157085_neg show False
    by simp
qed

lemma sin_cubic_bound:
  fixes x :: real
  shows "\<bar>sin x - x\<bar> \<le> \<bar>x\<bar> ^ 3 / 6"
proof -
  have set: "{..<3::nat} = {0, 1, 2}"
    by auto
  have poly: "(\<Sum>m<3. sin_coeff m * x ^ m) = x"
    unfolding set by (simp add: sin_coeff_def)
  have f: "fact 3 = (6::real)"
    by (simp add: fact_numeral)
  have "\<bar>sin x - (\<Sum>m<3. sin_coeff m * x ^ m)\<bar> \<le> inverse (fact 3) * \<bar>x\<bar> ^ 3"
    by (rule Maclaurin_sin_bound)
  then show ?thesis
    unfolding poly f by simp
qed

lemma arcsin_18_bounds:
  "18 / 1000 \<le> arcsin (18 / 1000)" "arcsin (18 / 1000) \<le> 1801 / 100000"
proof -
  have half: "1 < pi / 2"
    using pi_half_lower by simp
  have "sin (18 / 1000 :: real) \<le> 18 / 1000"
    by (rule sin_x_le_x) simp
  then have "arcsin (sin (18 / 1000 :: real)) \<le> arcsin (18 / 1000)"
    by (subst arcsin_le_mono) (simp_all add: abs_le_iff)
  moreover have "arcsin (sin (18 / 1000 :: real)) = 18 / 1000"
    using half by (intro arcsin_sin) simp_all
  ultimately show "18 / 1000 \<le> arcsin (18 / 1000)"
    by (simp only:)
  have "\<bar>sin (1801 / 100000 :: real) - 1801 / 100000\<bar> \<le> \<bar>1801 / 100000\<bar> ^ 3 / 6"
    by (rule sin_cubic_bound)
  moreover have "\<bar>1801 / 100000 :: real\<bar> ^ 3 / 6 \<le> 1 / 100000"
    by (simp add: power_divide)
  ultimately have "18 / 1000 \<le> sin (1801 / 100000 :: real)"
    by linarith
  then have "arcsin (18 / 1000) \<le> arcsin (sin (1801 / 100000 :: real))"
    by (subst arcsin_le_mono) (simp_all add: abs_le_iff)
  moreover have "arcsin (sin (1801 / 100000 :: real)) = 1801 / 100000"
    using half by (intro arcsin_sin) simp_all
  ultimately show "arcsin (18 / 1000) \<le> 1801 / 100000"
    by (simp only:)
qed

lemma arccos_minus_18: "arccos (- (18 / 1000)) = pi / 2 + arcsin (18 / 1000)"
proof -
  have "arccos (- (18 / 1000)) = pi / 2 - arcsin (- (18 / 1000))"
    by (rule arccos_arcsin_eq) simp_all
  also have "arcsin (- (18 / 1000)) = - arcsin (18 / 1000)"
    by (rule arcsin_minus) simp_all
  finally show ?thesis
    by simp
qed

lemma arccos_9999: "arccos (1 - 1 / real_of_int 10000) \<le> 0.05"
proof -
  have "\<bar>sin (25 / 1000 :: real) - 25 / 1000\<bar> \<le> \<bar>25 / 1000\<bar> ^ 3 / 6"
    by (rule sin_cubic_bound)
  moreover have "\<bar>25 / 1000 :: real\<bar> ^ 3 / 6 \<le> 1 / 1000"
    by (simp add: power_divide)
  ultimately have s: "24 / 1000 \<le> sin (25 / 1000 :: real)"
    by linarith
  have "(24 / 1000) * (24 / 1000) \<le> sin (25 / 1000 :: real) * sin (25 / 1000)"
    using s by (intro mult_mono) simp_all
  then have sq: "576 / 1000000 \<le> (sin (25 / 1000 :: real))\<^sup>2"
    by (simp add: power2_eq_square)
  have "cos (2 * (25 / 1000 :: real)) = 1 - 2 * (sin (25 / 1000))\<^sup>2"
    by (rule cos_double_sin)
  with sq have c: "cos (5 / 100 :: real) \<le> 1 - 1 / 10000"
    by simp
  have "arccos (1 - 1 / 10000) \<le> arccos (cos (5 / 100 :: real))"
    using c by (subst arccos_le_mono) (simp_all add: abs_le_iff)
  moreover have "arccos (cos (5 / 100 :: real)) = 5 / 100"
    using pi_ge_two by (intro arccos_cos) simp_all
  ultimately show ?thesis
    by simp
qed

subsection \<open>Angles in \<open>[0, pi]\<close> with close cosines are close\<close>

lemma cos_gap_ordered:
  fixes theta t :: real
  assumes "0 \<le> theta" and "theta \<le> t" and "t \<le> pi"
  shows "1 - cos (t - theta) \<le> cos theta - cos t"
proof -
  define h where "h = (t - theta) / 2"
  define s where "s = (theta + t) / 2"
  have h: "0 \<le> h" "h \<le> pi / 2"
    using assms by (simp_all add: h_def)
  have s: "h \<le> s" "s \<le> pi - h"
    using assms by (simp_all add: h_def s_def field_simps)
  have sin_h: "0 \<le> sin h"
    using h by (intro sin_ge_zero) simp_all
  have "sin h \<le> sin s"
  proof (cases "s \<le> pi / 2")
    case True
    with h s show ?thesis
      by (intro sin_monotone_2pi_le) simp_all
  next
    case False
    with h s have "sin h \<le> sin (pi - s)"
      by (intro sin_monotone_2pi_le) simp_all
    then show ?thesis
      by simp
  qed
  then have "sin h * sin h \<le> sin s * sin h"
    using sin_h by (rule mult_right_mono)
  moreover have "cos theta - cos t = 2 * sin s * sin h"
    unfolding s_def h_def by (rule cos_diff_cos)
  moreover have "cos (t - theta) = 1 - 2 * (sin h)\<^sup>2"
  proof -
    have "t - theta = 2 * h"
      by (simp add: h_def)
    then show ?thesis
      by (simp only: cos_double_sin)
  qed
  ultimately show ?thesis
    by (simp add: power2_eq_square)
qed

lemma cos_gap:
  fixes theta t :: real
  assumes "0 \<le> theta" and "theta \<le> pi" and "0 \<le> t" and "t \<le> pi"
  shows "1 - cos \<bar>t - theta\<bar> \<le> \<bar>cos t - cos theta\<bar>"
proof (cases "theta \<le> t")
  case True
  with assms have "1 - cos (t - theta) \<le> cos theta - cos t"
    by (intro cos_gap_ordered)
  with True show ?thesis
    by simp
next
  case False
  with assms have "1 - cos (theta - t) \<le> cos t - cos theta"
    by (intro cos_gap_ordered) simp_all
  moreover have "\<bar>t - theta\<bar> = theta - t"
    using False by simp
  ultimately show ?thesis
    by simp
qed

lemma angle_near:
  fixes theta t d :: real
  assumes "0 \<le> theta" and "theta \<le> pi" and "0 \<le> t" and "t \<le> pi"
    and "\<bar>cos t - cos theta\<bar> \<le> d" and "d \<le> 2"
  shows "\<bar>t - theta\<bar> \<le> arccos (1 - d)"
proof -
  have range: "0 \<le> \<bar>t - theta\<bar>" "\<bar>t - theta\<bar> \<le> pi"
    using assms by (simp_all add: abs_le_iff)
  have "0 \<le> d"
    using assms(5) by simp
  have "1 - d \<le> cos \<bar>t - theta\<bar>"
    using cos_gap [OF assms(1-4)] assms(5) by simp
  with \<open>0 \<le> d\<close> \<open>d \<le> 2\<close> have "arccos (cos \<bar>t - theta\<bar>) \<le> arccos (1 - d)"
    by (subst arccos_le_mono) (simp_all add: abs_le_iff)
  moreover have "arccos (cos \<bar>t - theta\<bar>) = \<bar>t - theta\<bar>"
    using range by (rule arccos_cos)
  ultimately show ?thesis
    by (simp only:)
qed

subsection \<open>The round trip stays near the phase\<close>

lemma roundTrip_tally:
  assumes "0 \<le> theta" and "theta \<le> pi" and "1 \<le> N"
  shows "0 \<le> py_round (predictedProbabilityOfOne theta * real_of_int N)"
    and "py_round (predictedProbabilityOfOne theta * real_of_int N) \<le> N"
proof -
  define p where "p = predictedProbabilityOfOne theta"
  define k where "k = py_round (p * real_of_int N)"
  have "- 1 \<le> cos theta" "cos theta \<le> 1"
    by simp_all
  then have p: "0 \<le> p" "p \<le> 1"
    by (simp_all add: p_def predictedProbabilityOfOne_cos)
  have N: "1 \<le> real_of_int N"
    using assms(3) by simp
  have pN: "0 \<le> p * real_of_int N" "p * real_of_int N \<le> real_of_int N"
    using p N by (simp_all add: mult_left_le_one_le)
  have near: "\<bar>real_of_int k - p * real_of_int N\<bar> \<le> 1 / 2"
    unfolding k_def by (rule py_round_near)
  with pN have "- 1 < real_of_int k" "real_of_int k < real_of_int N + 1"
    by linarith+
  then have "real_of_int (- 1) < real_of_int k" "real_of_int k < real_of_int (N + 1)"
    by simp_all
  then have "- 1 < k" "k < N + 1"
    by (simp_all only: of_int_less_iff)
  then show "0 \<le> py_round (predictedProbabilityOfOne theta * real_of_int N)"
    and "py_round (predictedProbabilityOfOne theta * real_of_int N) \<le> N"
    by (simp_all add: k_def p_def)
qed

lemma roundTrip_near:
  assumes "0 \<le> theta" and "theta \<le> pi" and "1 \<le> N"
  shows "\<exists>t. roundTrip theta N = Inr t \<and> \<bar>t - theta\<bar> \<le> arccos (1 - 1 / real_of_int N)"
proof -
  define p where "p = predictedProbabilityOfOne theta"
  define k where "k = py_round (p * real_of_int N)"
  define t where "t = arccos (1 - 2 * (real_of_int k / real_of_int N))"
  have k: "0 \<le> k" "k \<le> N"
    using roundTrip_tally [OF assms] by (simp_all add: k_def p_def)
  have N: "0 < real_of_int N" "1 \<le> real_of_int N"
    using assms(3) by simp_all
  have val: "roundTrip theta N = Inr t"
    unfolding roundTrip_def t_def k_def p_def
    using estimatePhase_in_range(1) [OF assms(3) k] by (simp add: k_def p_def)
  have t: "0 \<le> t" "t \<le> pi" "cos t = 1 - 2 * (real_of_int k / real_of_int N)"
    unfolding t_def using estimatePhase_in_range(2-4) [OF assms(3) k] by simp_all
  have cos_theta: "cos theta = 1 - 2 * p"
    by (simp add: p_def predictedProbabilityOfOne_cos field_simps)
  define x where "x = real_of_int k - p * real_of_int N"
  have near: "\<bar>x\<bar> \<le> 1 / 2"
    unfolding x_def k_def by (rule py_round_near)
  have absN: "\<bar>real_of_int N\<bar> = real_of_int N"
    using N by simp
  have "cos t - cos theta = - (2 * (x / real_of_int N))"
    using N by (simp add: t cos_theta x_def field_simps)
  then have "\<bar>cos t - cos theta\<bar> = 2 * (\<bar>x\<bar> / real_of_int N)"
    by (simp only: abs_minus abs_mult abs_divide absN abs_numeral)
  also have "\<dots> \<le> 2 * ((1 / 2) / real_of_int N)"
    using near N by (intro mult_left_mono divide_right_mono) simp_all
  finally have close: "\<bar>cos t - cos theta\<bar> \<le> 1 / real_of_int N"
    by simp
  have "1 / real_of_int N \<le> 2"
    using N by (simp add: field_simps)
  with close have "\<bar>t - theta\<bar> \<le> arccos (1 - 1 / real_of_int N)"
    using assms(1,2) t(1,2) by (intro angle_near)
  with val show ?thesis
    by blast
qed

lemma arccos_gap_small:
  fixes e :: real
  assumes "0 < e"
  shows "\<exists>N0. \<forall>N\<ge>N0. 1 \<le> N \<and> arccos (1 - 1 / real_of_int N) < e"
proof (cases "e \<le> pi")
  case True
  with assms have "cos e < cos 0"
    by (intro cos_monotone_0_pi) simp_all
  then have c: "0 < 1 - cos e"
    by simp
  obtain n :: nat where n: "1 / (1 - cos e) < real n"
    using reals_Archimedean2 by blast
  have npos: "0 < real n"
    using c n by (meson divide_pos_pos less_trans zero_less_one)
  have "1 \<le> N \<and> arccos (1 - 1 / real_of_int N) < e" if "int n \<le> N" for N
  proof -
    have le: "real n \<le> real_of_int N"
      using that by (metis of_int_le_iff of_int_of_nat_eq)
    with npos have N: "0 < real_of_int N"
      by simp
    then have N1: "1 \<le> N"
      by simp
    have "1 / (1 - cos e) < real_of_int N"
      using n le by simp
    with c N have "1 / real_of_int N < 1 - cos e"
      by (simp add: field_simps)
    then have "cos e < 1 - 1 / real_of_int N"
      by simp
    moreover have "1 / real_of_int N \<le> 1" "0 \<le> 1 / real_of_int N"
      using N1 by simp_all
    ultimately have "arccos (1 - 1 / real_of_int N) < arccos (cos e)"
      by (subst arccos_less_mono) (simp_all add: abs_le_iff)
    moreover have "arccos (cos e) = e"
      using assms True by (intro arccos_cos) simp_all
    ultimately show ?thesis
      using N1 by simp
  qed
  then show ?thesis
    by blast
next
  case False
  have "1 \<le> N \<and> arccos (1 - 1 / real_of_int N) < e" if "1 \<le> N" for N
  proof -
    have "1 / real_of_int N \<le> 1" "0 \<le> 1 / real_of_int N"
      using that by simp_all
    then have "arccos (1 - 1 / real_of_int N) \<le> pi"
      by (intro arccos_ubound) simp_all
    with False that show ?thesis
      by simp
  qed
  then show ?thesis
    by blast
qed

section \<open>The claims\<close>

subsection \<open>The phase estimate\<close>

text \<open>
  C1. For every tally with \<open>shots \<ge> 1\<close> and \<open>0 \<le> countOne \<le> shots\<close>, the estimate is
  \<open>arccos (1 - 2 * (countOne / shots))\<close>. It is the principal value: it lies in
  \<open>[0, pi]\<close> and its cosine is \<open>1 - 2 * (countOne / shots)\<close>.
\<close>

theorem C1_estimatePhase_arccos:
  assumes "1 \<le> shots" and "0 \<le> countOne" and "countOne \<le> shots"
  shows "estimatePhase countOne shots
           = Inr (arccos (1 - 2 * (real_of_int countOne / real_of_int shots)))
         \<and> 0 \<le> arccos (1 - 2 * (real_of_int countOne / real_of_int shots))
         \<and> arccos (1 - 2 * (real_of_int countOne / real_of_int shots)) \<le> pi
         \<and> cos (arccos (1 - 2 * (real_of_int countOne / real_of_int shots)))
             = 1 - 2 * (real_of_int countOne / real_of_int shots)"
  using estimatePhase_in_range [OF assms] by simp

text \<open>The tally of the notebook's recorded run, 509 ones in 1000 shots.\<close>

theorem C1_estimatePhase_arccos_witness:
  "(1::int) \<le> 1000 \<and> (0::int) \<le> 509 \<and> (509::int) \<le> 1000
   \<and> estimatePhase 509 1000 = Inr (arccos (1 - 2 * (509 / 1000)))
   \<and> 0 \<le> arccos (1 - 2 * (509 / 1000))
   \<and> arccos (1 - 2 * (509 / 1000)) \<le> pi"
  using C1_estimatePhase_arccos [of 1000 509] by simp

text \<open>
  C2, as the code has it. The expressions validate nothing and know no
  \<^verbatim>\<open>InvalidArgument\<close>; a failure is an exception of Python's own.
  \<^item> \<^verbatim>\<open>estimatePhase(countOne, shots)\<close> fails only on a malformed tally (\<open>shots \<le> 0\<close>,
    \<open>countOne < 0\<close> or \<open>countOne > shots\<close>).
  \<^item> For \<open>1 \<le> shots \<le> 2\<^sup>5\<^sup>2\<close> it fails exactly when \<open>countOne < 0\<close> or \<open>countOne > shots\<close>,
    with \<^verbatim>\<open>ValueError\<close> from \<^verbatim>\<open>math.acos\<close> or \<^verbatim>\<open>OverflowError\<close> from the division. The
    argument of \<^verbatim>\<open>math.acos\<close> is then outside \<open>[-1, 1]\<close> by \<open>2 / 2\<^sup>5\<^sup>2\<close> at least, twice
    the spacing of the doubles at 1. A value that is returned belongs to a well-formed
    tally and is the arc cosine at its ratio: nothing is clamped.
  \<^item> With \<open>shots = 0\<close> and a count under the key \<^verbatim>\<open>'1'\<close> the division raises
    \<^verbatim>\<open>ZeroDivisionError\<close>.
  \<^item> \<^verbatim>\<open>estimatePhase(-1, 100)\<close> and \<^verbatim>\<open>estimatePhase(150, 100)\<close> fail with \<^verbatim>\<open>ValueError\<close>,
    \<^verbatim>\<open>estimatePhase(5, 0)\<close> with \<^verbatim>\<open>ZeroDivisionError\<close>.
  Nothing is said of a malformed tally with negative or more than \<open>2\<^sup>5\<^sup>2\<close> shots.
\<close>

theorem C2_estimatePhase_failure:
  "(isl (estimatePhase countOne shots) \<longrightarrow> shots \<le> 0 \<or> countOne < 0 \<or> shots < countOne)
   \<and> (1 \<le> shots \<and> shots \<le> 2 ^ 52 \<longrightarrow>
        (isl (estimatePhase countOne shots) \<longleftrightarrow> countOne < 0 \<or> shots < countOne)
        \<and> (isl (estimatePhase countOne shots) \<longrightarrow>
              (estimatePhase countOne shots = Inl ValueError
               \<or> estimatePhase countOne shots = Inl OverflowError)
              \<and> 1 + 2 / 2 ^ 52
                  \<le> \<bar>(real_of_int countOne / real_of_int shots * 2 - 1) * - 1\<bar>)
        \<and> (\<forall>t. estimatePhase countOne shots = Inr t \<longrightarrow>
              0 \<le> countOne \<and> countOne \<le> shots
              \<and> t = arccos (1 - 2 * (real_of_int countOne / real_of_int shots))))
   \<and> (''1'' \<in> dom counts \<longrightarrow> ramseyPhase counts 0 = Inl ZeroDivisionError)
   \<and> estimatePhase (- 1) 100 = Inl ValueError
   \<and> estimatePhase 150 100 = Inl ValueError
   \<and> estimatePhase 5 0 = Inl ZeroDivisionError"
proof (intro conjI impI allI)
  assume "isl (estimatePhase countOne shots)"
  then have "\<not> (1 \<le> shots \<and> 0 \<le> countOne \<and> countOne \<le> shots)"
    using estimatePhase_in_range(1) [of shots countOne] by auto
  then show "shots \<le> 0 \<or> countOne < 0 \<or> shots < countOne"
    by auto
next
  assume "1 \<le> shots \<and> shots \<le> 2 ^ 52"
  then have s: "1 \<le> shots" and "shots \<noteq> 0"
    by simp_all
  with ratio_in_range_iff [OF s, of countOne]
  show "isl (estimatePhase countOne shots) \<longleftrightarrow> countOne < 0 \<or> shots < countOne"
    by (simp add: estimatePhase_fails_iff)
next
  assume "1 \<le> shots \<and> shots \<le> 2 ^ 52" and "isl (estimatePhase countOne shots)"
  then show "estimatePhase countOne shots = Inl ValueError
      \<or> estimatePhase countOne shots = Inl OverflowError"
    by (intro estimatePhase_error_kind) simp_all
next
  assume b: "1 \<le> shots \<and> shots \<le> 2 ^ 52" and f: "isl (estimatePhase countOne shots)"
  from b have s: "1 \<le> shots" and "shots \<noteq> 0"
    by simp_all
  with f ratio_in_range_iff [OF s, of countOne] have "countOne < 0 \<or> shots < countOne"
    by (simp add: estimatePhase_fails_iff)
  with b show "1 + 2 / 2 ^ 52
      \<le> \<bar>(real_of_int countOne / real_of_int shots * 2 - 1) * - 1\<bar>"
    by (intro acos_argument_margin) simp_all
next
  fix t
  assume b: "1 \<le> shots \<and> shots \<le> 2 ^ 52" and v: "estimatePhase countOne shots = Inr t"
  from b have s: "1 \<le> shots" and "shots \<noteq> 0"
    by simp_all
  from v have "\<not> isl (estimatePhase countOne shots)"
    by simp
  with s ratio_in_range_iff [OF s(1), of countOne]
  have wf: "0 \<le> countOne" "countOne \<le> shots"
    by (simp_all add: estimatePhase_fails_iff)
  from wf show "0 \<le> countOne" and "countOne \<le> shots"
    by simp_all
  from estimatePhase_in_range(1) [OF s(1) wf] v
  show "t = arccos (1 - 2 * (real_of_int countOne / real_of_int shots))"
    by simp
next
  assume "''1'' \<in> dom counts"
  then show "ramseyPhase counts 0 = Inl ZeroDivisionError"
    by (auto simp add: ramseyPhase_def probability_def getitem_def truediv_def)
next
  show "estimatePhase (- 1) 100 = Inl ValueError"
    by (simp add: estimatePhase_small)
  show "estimatePhase 150 100 = Inl ValueError"
    by (simp add: estimatePhase_small)
  show "estimatePhase 5 0 = Inl ZeroDivisionError"
    by (simp add: estimatePhase_eq)
qed

text \<open>
  An overfull tally of 100 shots fails, a balanced one returns the estimate of its
  ratio, and five ones counted in no shots fail in the division.
\<close>

theorem C2_estimatePhase_failure_witness:
  "(1::int) \<le> 100 \<and> (100::int) \<le> 2 ^ 52 \<and> (100::int) < 150
   \<and> isl (estimatePhase 150 100)
   \<and> estimatePhase 150 100 = Inl ValueError
   \<and> 1 + 2 / 2 ^ 52 \<le> \<bar>(real_of_int 150 / real_of_int 100 * 2 - 1) * - 1\<bar>
   \<and> estimatePhase 50 100 = Inr (pi / 2)
   \<and> ''1'' \<in> dom [''1'' \<mapsto> 5 :: int]
   \<and> ramseyPhase [''1'' \<mapsto> 5] 0 = Inl ZeroDivisionError"
proof -
  have a: "estimatePhase 150 100 = Inl ValueError"
    by (simp add: estimatePhase_small)
  have b: "estimatePhase 50 100 = Inr (pi / 2)"
    by (simp add: estimatePhase_small)
  show ?thesis
    using C2_estimatePhase_failure [of 150 100 "[''1'' \<mapsto> 5]"]
      C2_estimatePhase_failure [of 50 100 "[''1'' \<mapsto> 5]"]
    by (simp add: a b)
qed

text \<open>
  C2 as the specification states it fails on the code: a tally with a negative number
  of shots is malformed, yet when the ratio lies in \<open>[0, 1]\<close> the expressions return an
  estimate. With \<open>countOne = -5\<close> and \<open>shots = -10\<close> the ratio is \<open>1/2\<close> and the result
  is \<open>pi / 2\<close>.
\<close>

theorem C2_negative_shots_counterexample:
  "\<not> (isl (estimatePhase (- 5) (- 10)) \<longleftrightarrow>
        ((- 10 :: int) \<le> 0 \<or> (- 5 :: int) < 0 \<or> (- 10 :: int) < - 5))
   \<and> estimatePhase (- 5) (- 10) = Inr (pi / 2)"
  by (simp add: estimatePhase_small)

text \<open>
  C6. The boundary tallies: no ones in 1000 shots give the phase 0, ones only give
  \<open>pi\<close>. Both are exact, hence within any tolerance.
\<close>

theorem C6_boundary_tallies:
  "estimatePhase 0 1000 = Inr 0 \<and> estimatePhase 1000 1000 = Inr pi"
  by (simp add: estimatePhase_small)

text \<open>
  C7. The notebook's recorded run: 509 ones in 1000 shots give the probability 0.509
  and the phase \<open>arccos (1 - 1.018) = arccos (-0.018)\<close>, which is 1.5888 to within
  \<open>10\<^sup>-\<^sup>4\<close>; the true phase \<open>pi / 2\<close> is 1.5708 and the phase error 0.0180 to within
  \<open>10\<^sup>-\<^sup>4\<close>. The last two conjuncts compare with the numbers the notebook printed.
\<close>

theorem C7_worked_example:
  "truediv 509 1000 = Inr 0.509
   \<and> estimatePhase 509 1000 = Inr (arccos (1 - 1.018))
   \<and> arccos (1 - 1.018) = arccos (- 0.018)
   \<and> \<bar>arccos (- 0.018) - 1.5888\<bar> \<le> 1 / 10 ^ 4
   \<and> \<bar>pi / 2 - 1.5708\<bar> \<le> 1 / 10 ^ 4
   \<and> \<bar>phaseError (arccos (- 0.018)) (pi / 2) - 0.0180\<bar> \<le> 1 / 10 ^ 4
   \<and> \<bar>arccos (- 0.018) - 1.5887972989366417\<bar> \<le> 1 / 10 ^ 4
   \<and> \<bar>phaseError (arccos (- 0.018)) (pi / 2) - 0.01800097214174512\<bar> \<le> 1 / 10 ^ 4"
proof -
  have val: "estimatePhase 509 1000 = Inr (arccos (1 - 1.018))"
    by (simp add: estimatePhase_small)
  have arg: "1 - 1.018 = (- 0.018 :: real)"
    by simp
  have dec: "(0.018 :: real) = 18 / 1000"
    by simp
  have acos: "arccos (- 0.018) = pi / 2 + arcsin (18 / 1000)"
    unfolding dec by (rule arccos_minus_18)
  have err: "phaseError (arccos (- 0.018)) (pi / 2) = arcsin (18 / 1000)"
    unfolding acos phaseError_def using arcsin_18_bounds(1) by simp
  note b = pi_half_lower pi_half_upper arcsin_18_bounds
  have 1: "truediv 509 1000 = Inr 0.509"
    by (simp add: truediv_small)
  have 2: "\<bar>arccos (- 0.018) - 1.5888\<bar> \<le> 1 / 10 ^ 4"
    unfolding acos abs_le_iff using b by simp
  have 3: "\<bar>pi / 2 - 1.5708\<bar> \<le> 1 / 10 ^ 4"
    unfolding abs_le_iff using b by simp
  have 4: "\<bar>phaseError (arccos (- 0.018)) (pi / 2) - 0.0180\<bar> \<le> 1 / 10 ^ 4"
    unfolding err abs_le_iff using b by simp
  have 5: "\<bar>arccos (- 0.018) - 1.5887972989366417\<bar> \<le> 1 / 10 ^ 4"
    unfolding acos abs_le_iff using b by simp
  have 6: "\<bar>phaseError (arccos (- 0.018)) (pi / 2) - 0.01800097214174512\<bar> \<le> 1 / 10 ^ 4"
    unfolding err abs_le_iff using b by simp
  from val arg 1 2 3 4 5 6 show ?thesis
    by (simp only: simp_thms)
qed

text \<open>
  C8. For every pair of reals, the phase error (\<^verbatim>\<open>estimationError\<close> in the specification)
  is the absolute difference of the estimated and the actual phase. It has no error
  branch: the result is a real, never negative, zero exactly when the two agree, and
  the same in both orders.
\<close>

theorem C8_phaseError_abs_difference:
  "phaseError estimated actual = \<bar>estimated - actual\<bar>
   \<and> 0 \<le> phaseError estimated actual
   \<and> (phaseError estimated actual = 0 \<longleftrightarrow> estimated = actual)
   \<and> phaseError estimated actual = phaseError actual estimated"
  by (auto simp add: phaseError_def)

text \<open>
  C10. A key that is absent from the counts has probability 0; no \<^verbatim>\<open>KeyError\<close> is ever
  raised, whatever the counts. A run without any 1 outcome therefore has the phase 0.
\<close>

theorem C10_absent_key:
  "(key \<notin> dom counts \<longrightarrow> probability key counts shots = Inr 0)
   \<and> (''1'' \<notin> dom counts \<longrightarrow> ramseyPhase counts shots = Inr 0)
   \<and> probability key counts shots \<noteq> Inl KeyError"
  by (auto simp add: probability_def ramseyPhase_def getitem_def truediv_def phase_eq
      split: option.splits)

text \<open>The counts of a run of 1000 shots that read 0 every time.\<close>

theorem C10_absent_key_witness:
  "''1'' \<notin> dom [''0'' \<mapsto> 1000 :: int]
   \<and> probability ''1'' [''0'' \<mapsto> 1000] 1000 = Inr 0
   \<and> ramseyPhase [''0'' \<mapsto> 1000] 1000 = Inr 0"
  using C10_absent_key [of "''1''" "[''0'' \<mapsto> 1000]" 1000] by simp

subsection \<open>The forward model\<close>

text \<open>
  C3. For every real \<open>theta\<close> the predicted probability of reading 1 is
  \<open>(1 - cos theta) / 2\<close>, and it lies in \<open>[0, 1]\<close>.
\<close>

theorem C3_predictedProbabilityOfOne_range:
  "predictedProbabilityOfOne theta = (1 - cos theta) / 2
   \<and> 0 \<le> predictedProbabilityOfOne theta
   \<and> predictedProbabilityOfOne theta \<le> 1"
proof -
  have "- 1 \<le> cos theta" "cos theta \<le> 1"
    by simp_all
  then show ?thesis
    by (simp add: predictedProbabilityOfOne_cos)
qed

text \<open>
  C4. The predicted probability is the same at \<open>theta\<close> and at \<open>2 * pi - theta\<close>; it is
  0 at 0 and 1 at \<open>pi\<close>, exactly and so within \<open>10\<^sup>-\<^sup>9\<close>.
\<close>

theorem C4_predictedProbabilityOfOne_symmetry:
  "predictedProbabilityOfOne theta = predictedProbabilityOfOne (2 * pi - theta)
   \<and> predictedProbabilityOfOne 0 = 0
   \<and> predictedProbabilityOfOne pi = 1
   \<and> \<bar>predictedProbabilityOfOne 0 - 0\<bar> \<le> 1 / 10 ^ 9
   \<and> \<bar>predictedProbabilityOfOne pi - 1\<bar> \<le> 1 / 10 ^ 9"
  by (simp add: predictedProbabilityOfOne_cos)

text \<open>
  C5. The noiseless round trip. For every \<open>theta\<close> in \<open>[0, pi]\<close> and every \<open>N \<ge> 1\<close> the
  estimate from the tally \<open>round (p * N)\<close> exists and is within \<open>arccos (1 - 1 / N)\<close> of
  \<open>theta\<close>; it converges to \<open>theta\<close> as \<open>N\<close> grows; at \<open>N = 10000\<close> it is within 0.05.
\<close>

theorem C5_round_trip:
  assumes "0 \<le> theta" and "theta \<le> pi"
  shows "(\<forall>N\<ge>1. \<exists>t. roundTrip theta N = Inr t
            \<and> \<bar>t - theta\<bar> \<le> arccos (1 - 1 / real_of_int N))
         \<and> (\<forall>e>0. \<exists>N0. \<forall>N\<ge>N0. \<exists>t. roundTrip theta N = Inr t \<and> \<bar>t - theta\<bar> < e)
         \<and> (\<exists>t. roundTrip theta 10000 = Inr t \<and> \<bar>t - theta\<bar> \<le> 0.05)"
proof (intro conjI allI impI)
  fix N :: int
  assume "1 \<le> N"
  with assms show "\<exists>t. roundTrip theta N = Inr t
      \<and> \<bar>t - theta\<bar> \<le> arccos (1 - 1 / real_of_int N)"
    by (rule roundTrip_near)
next
  fix e :: real
  assume "0 < e"
  then obtain N0 where N0: "\<forall>N\<ge>N0. 1 \<le> N \<and> arccos (1 - 1 / real_of_int N) < e"
    using arccos_gap_small by blast
  have "\<exists>t. roundTrip theta N = Inr t \<and> \<bar>t - theta\<bar> < e" if "N0 \<le> N" for N
  proof -
    from N0 that have N: "1 \<le> N" "arccos (1 - 1 / real_of_int N) < e"
      by simp_all
    from roundTrip_near [OF assms N(1)] N(2) show ?thesis
      by force
  qed
  then show "\<exists>N0. \<forall>N\<ge>N0. \<exists>t. roundTrip theta N = Inr t \<and> \<bar>t - theta\<bar> < e"
    by blast
next
  from roundTrip_near [OF assms, of 10000] arccos_9999
  show "\<exists>t. roundTrip theta 10000 = Inr t \<and> \<bar>t - theta\<bar> \<le> 0.05"
    by force
qed

text \<open>At \<open>theta = pi / 2\<close> the tally is 5000 of 10000 and the round trip is exact.\<close>

theorem C5_round_trip_witness:
  "0 \<le> pi / 2 \<and> pi / 2 \<le> pi
   \<and> roundTrip (pi / 2) 10000 = Inr (pi / 2)
   \<and> (\<exists>t. roundTrip (pi / 2) 10000 = Inr t \<and> \<bar>t - pi / 2\<bar> \<le> 0.05)"
proof -
  have "roundTrip (pi / 2) 10000 = Inr (pi / 2)"
    by (simp add: roundTrip_def predictedProbabilityOfOne_cos py_round_def estimatePhase_small)
  moreover from C5_round_trip [of "pi / 2"]
  have "\<exists>t. roundTrip (pi / 2) 10000 = Inr t \<and> \<bar>t - pi / 2\<bar> \<le> 0.05"
    by simp
  ultimately show ?thesis
    by simp
qed

subsection \<open>Runs of the cells\<close>




end
